theory Spec2Isabelle
  imports Main "HOL-Library.Word" "HOL-Library.Log_Nat"
begin

section \<open>Python values and the object store\<close>

text \<open>
  The nodes of \<^verbatim>\<open>modules/nodes.py\<close> pass around strings, \<^verbatim>\<open>None\<close> and torch tensors
  (images and masks). The tensor type is a parameter: the pipe and mux nodes never look
  inside one.
\<close>

datatype 't pyval = PyNone | PyStr string | PyTensor 't

text \<open>
  A pipe is a Python \<^verbatim>\<open>dict\<close>, mutated in place and passed by reference. The store maps
  every reference to the current contents of its dict. Each of the four pipe functions
  declares \<^verbatim>\<open>pipe: Dict = {}\<close>: Python evaluates that default once, when the \<^verbatim>\<open>def\<close> is
  executed, so each function owns one default object for the life of the process.
\<close>

datatype pipe_fn =
  CheckpointModelsToParametersPipe
  | PromptsToParametersPipe
  | ParametersPipeToCheckpointModels
  | ParametersPipeToPrompts

datatype ref = DefaultPipe pipe_fn | Obj nat

type_synonym 't pipe = "string \<rightharpoonup> 't pyval"

type_synonym 't heap = "ref \<Rightarrow> 't pipe"

definition setitem :: "'t heap \<Rightarrow> ref \<Rightarrow> string \<Rightarrow> 't pyval \<Rightarrow> 't heap" where
  \<comment> \<open>\<^verbatim>\<open>pipe[k] = v\<close>\<close>
  "setitem h r k v = h(r := (h r)(k \<mapsto> v))"

definition dict_get :: "'t heap \<Rightarrow> ref \<Rightarrow> string \<Rightarrow> 't pyval \<Rightarrow> 't pyval" where
  \<comment> \<open>\<^verbatim>\<open>pipe.get(k, d)\<close>\<close>
  "dict_get h r k d = (case h r k of None \<Rightarrow> d | Some v \<Rightarrow> v)"

definition initial_heap :: "'t heap" where
  \<comment> \<open>the store right after the module is imported: every default dict is \<^verbatim>\<open>{}\<close>\<close>
  "initial_heap = (\<lambda>r. Map.empty)"

section \<open>Parameter pipe, checkpoint direction\<close>

abbreviation or_sentinel :: "string option \<Rightarrow> string" where
  \<comment> \<open>a keyword parameter declared \<^verbatim>\<open>="None"\<close>: the value it is bound to\<close>
  "or_sentinel a \<equiv> (case a of None \<Rightarrow> ''None'' | Some x \<Rightarrow> x)"

abbreviation name_unless_sentinel :: "string \<Rightarrow> 't pyval" where
  \<comment> \<open>the conditional expression \<^verbatim>\<open>x if x != "None" else None\<close>\<close>
  "name_unless_sentinel x \<equiv> (if x \<noteq> ''None'' then PyStr x else PyNone)"

definition checkpoint_models_to_parameter_pipe ::
  "'t heap \<Rightarrow> string \<Rightarrow> ref option \<Rightarrow> string option \<Rightarrow> string option \<Rightarrow> string option \<Rightarrow>
   string option \<Rightarrow> string option \<Rightarrow> string option \<Rightarrow> string option \<Rightarrow> 't heap \<times> ref" where
  \<comment> \<open>an argument \<open>None\<close> is an argument the caller left out; the result is the 1-tuple
      \<^verbatim>\<open>(pipe,)\<close>\<close>
  "checkpoint_models_to_parameter_pipe h ckpt_name pipe secondary_ckpt_name vae_name
       upscaler_name secondary_upscaler_name lora_1_name lora_2_name lora_3_name =
     (let pipe = (case pipe of None \<Rightarrow> DefaultPipe CheckpointModelsToParametersPipe | Some r \<Rightarrow> r);
          secondary_ckpt_name = or_sentinel secondary_ckpt_name;
          vae_name = or_sentinel vae_name;
          upscaler_name = or_sentinel upscaler_name;
          secondary_upscaler_name = or_sentinel secondary_upscaler_name;
          lora_1_name = or_sentinel lora_1_name;
          lora_2_name = or_sentinel lora_2_name;
          lora_3_name = or_sentinel lora_3_name;
          h = setitem h pipe ''ckpt_name'' (name_unless_sentinel ckpt_name);
          h = setitem h pipe ''secondary_ckpt_name'' (name_unless_sentinel secondary_ckpt_name);
          h = setitem h pipe ''vae_name'' (name_unless_sentinel vae_name);
          h = setitem h pipe ''upscaler_name'' (name_unless_sentinel upscaler_name);
          h = setitem h pipe ''secondary_upscaler_name''
                (name_unless_sentinel secondary_upscaler_name);
          h = setitem h pipe ''lora_1_name'' (name_unless_sentinel lora_1_name);
          h = setitem h pipe ''lora_2_name'' (name_unless_sentinel lora_2_name);
          h = setitem h pipe ''lora_3_name'' (name_unless_sentinel lora_3_name)
      in (h, pipe))"

record 't checkpoint_models =
  cm_pipe :: ref
  cm_ckpt_name :: "'t pyval"
  cm_secondary_ckpt_name :: "'t pyval"
  cm_vae_name :: "'t pyval"
  cm_upscaler_name :: "'t pyval"
  cm_secondary_upscaler_name :: "'t pyval"
  cm_lora_1_name :: "'t pyval"
  cm_lora_2_name :: "'t pyval"
  cm_lora_3_name :: "'t pyval"

definition parameter_pipe_to_checkpoint_models ::
  "'t heap \<Rightarrow> ref option \<Rightarrow> 't heap \<times> 't checkpoint_models" where
  \<comment> \<open>the nine-element result tuple, its fields named by \<^verbatim>\<open>RETURN_NAMES\<close>\<close>
  "parameter_pipe_to_checkpoint_models h pipe =
     (let pipe = (case pipe of None \<Rightarrow> DefaultPipe ParametersPipeToCheckpointModels | Some r \<Rightarrow> r);
          ckpt_name = dict_get h pipe ''ckpt_name'' PyNone;
          secondary_ckpt_name = dict_get h pipe ''secondary_ckpt_name'' PyNone;
          vae_name = dict_get h pipe ''vae_name'' PyNone;
          upscaler_name = dict_get h pipe ''upscaler_name'' PyNone;
          secondary_upscaler_name = dict_get h pipe ''secondary_upscaler_name'' PyNone;
          lora_1_name = dict_get h pipe ''lora_1_name'' PyNone;
          lora_2_name = dict_get h pipe ''lora_2_name'' PyNone;
          lora_3_name = dict_get h pipe ''lora_3_name'' PyNone
      in (h, \<lparr> cm_pipe = pipe,
               cm_ckpt_name = ckpt_name,
               cm_secondary_ckpt_name = secondary_ckpt_name,
               cm_vae_name = vae_name,
               cm_upscaler_name = upscaler_name,
               cm_secondary_upscaler_name = secondary_upscaler_name,
               cm_lora_1_name = lora_1_name,
               cm_lora_2_name = lora_2_name,
               cm_lora_3_name = lora_3_name \<rparr>))"

section \<open>Parameter pipe, prompt direction\<close>

definition prompt_to_parameter_pipe ::
  "'t heap \<Rightarrow> string \<Rightarrow> string \<Rightarrow> ref option \<Rightarrow> 't option \<Rightarrow> 't option \<Rightarrow> 't heap \<times> ref" where
  \<comment> \<open>\<^verbatim>\<open>image=None\<close> and \<^verbatim>\<open>mask=None\<close>: a tensor that is left out is stored as \<^verbatim>\<open>None\<close>\<close>
  "prompt_to_parameter_pipe h positive negative pipe image' mask' =
     (let pipe = (case pipe of None \<Rightarrow> DefaultPipe PromptsToParametersPipe | Some r \<Rightarrow> r);
          image' = (case image' of None \<Rightarrow> PyNone | Some t \<Rightarrow> PyTensor t);
          mask' = (case mask' of None \<Rightarrow> PyNone | Some t \<Rightarrow> PyTensor t);
          h = setitem h pipe ''positive'' (PyStr positive);
          h = setitem h pipe ''negative'' (PyStr negative);
          h = setitem h pipe ''image'' image';
          h = setitem h pipe ''mask'' mask'
      in (h, pipe))"

record 't prompts =
  pr_pipe :: ref
  pr_positive :: "'t pyval"
  pr_negative :: "'t pyval"
  pr_image :: "'t pyval"
  pr_mask :: "'t pyval"

definition parameter_pipe_to_prompt :: "'t heap \<Rightarrow> ref option \<Rightarrow> 't heap \<times> 't prompts" where
  "parameter_pipe_to_prompt h pipe =
     (let pipe = (case pipe of None \<Rightarrow> DefaultPipe ParametersPipeToPrompts | Some r \<Rightarrow> r);
          positive = dict_get h pipe ''positive'' PyNone;
          negative = dict_get h pipe ''negative'' PyNone;
          image' = dict_get h pipe ''image'' PyNone;
          mask' = dict_get h pipe ''mask'' PyNone
      in (h, \<lparr> pr_pipe = pipe,
               pr_positive = positive,
               pr_negative = negative,
               pr_image = image',
               pr_mask = mask' \<rparr>))"

section \<open>Exceptions, lists and strings\<close>

datatype error =
  IndexError
  | Exception string
  | Raised string

text \<open>
  \<open>Exception msg\<close> is the plain \<^verbatim>\<open>Exception(msg)\<close> the module raises itself; \<open>Raised name\<close>
  is whatever exception a library or host call raises (a \<^verbatim>\<open>requests\<close> connection error or
  timeout, a PIL decode error, an \<^verbatim>\<open>OSError\<close> of the file system, ...). Nothing in the module
  catches an exception: it ends the node's call.
\<close>

definition getitem :: "'a list \<Rightarrow> int \<Rightarrow> error + 'a" where
  \<comment> \<open>\<^verbatim>\<open>xs[i]\<close> on a Python list: indices \<open>-len .. -1\<close> count from the end\<close>
  "getitem xs i =
     (if 0 \<le> i \<and> i < int (length xs) then Inr (xs ! nat i)
      else if - int (length xs) \<le> i \<and> i < 0 then Inr (xs ! nat (i + int (length xs)))
      else Inl IndexError)"

definition startswith :: "string \<Rightarrow> string \<Rightarrow> bool" where
  "startswith s p = (take (length p) s = p)"

fun split_from :: "string \<Rightarrow> char \<Rightarrow> string \<Rightarrow> string list" where
  \<comment> \<open>the pieces of the rest of a string, \<open>piece\<close> being the part of the current piece already
      read\<close>
  "split_from [] sep piece = [piece]"
| "split_from (c # cs) sep piece =
     (if c = sep then piece # split_from cs sep []
      else split_from cs sep (piece @ [c]))"

definition split :: "string \<Rightarrow> char \<Rightarrow> string list" where
  \<comment> \<open>\<^verbatim>\<open>s.split(sep)\<close> for a one-character separator\<close>
  "split s sep = split_from s sep []"

fun str_nat :: "nat \<Rightarrow> string" where
  \<comment> \<open>\<^verbatim>\<open>str(n)\<close> of a non-negative \<^verbatim>\<open>int\<close>: its decimal digits\<close>
  "str_nat n =
     (if n < 10 then [''0123456789'' ! n]
      else str_nat (n div 10) @ [''0123456789'' ! (n mod 10)])"

declare str_nat.simps [simp del]

definition zero_padded :: "nat \<Rightarrow> nat \<Rightarrow> string" where
  \<comment> \<open>the format spec \<^verbatim>\<open>{n:0w}\<close> of a non-negative \<^verbatim>\<open>int\<close>\<close>
  "zero_padded w n = replicate (w - length (str_nat n)) CHR ''0'' @ str_nat n"

definition path_join :: "string \<Rightarrow> string \<Rightarrow> string" where
  \<comment> \<open>\<^verbatim>\<open>os.path.join(a, b)\<close> of \<^verbatim>\<open>posixpath\<close>\<close>
  "path_join a b =
     (if startswith b ''/'' then b
      else if a = [] \<or> last a = CHR ''/'' then a @ b
      else a @ ''/'' @ b)"

type_synonym bytes = "8 word list"

section \<open>Image Mux\<close>

definition image_muxer ::
  "'t pyval \<Rightarrow> 't pyval \<Rightarrow> int \<Rightarrow> 't pyval option \<Rightarrow> 't pyval option \<Rightarrow> error + 't pyval" where
  \<comment> \<open>\<^verbatim>\<open>image_3=None, image_4=None\<close>: an optional image that is left out is \<^verbatim>\<open>None\<close> in the
      list\<close>
  "image_muxer image_1 image_2 input_selector image_3 image_4 =
     (let image_3 = (case image_3 of None \<Rightarrow> PyNone | Some v \<Rightarrow> v);
          image_4 = (case image_4 of None \<Rightarrow> PyNone | Some v \<Rightarrow> v);
          images = [image_1, image_2, image_3, image_4]
      in getitem images input_selector)"

section \<open>Upload Sink\<close>

text \<open>
  The library and host calls of \<^verbatim>\<open>upload_images\<close> are parameters: \<open>'t\<close> is an image tensor,
  \<open>'i\<close> a PIL image, \<open>'j\<close> a value handed to \<^verbatim>\<open>json.dumps\<close>. \<^verbatim>\<open>upload_to_av\<close> lives in
  \<^verbatim>\<open>modules/utils.py\<close>; the node passes it the batch and ignores what it returns. The calls
  the node makes are part of its result.
\<close>

record ('t, 'i, 'j) upload_env =
  fromarray :: "'t \<Rightarrow> error + 'i"
    \<comment> \<open>\<^verbatim>\<open>Image.fromarray(np.clip(255.0 * image.cpu().numpy(), 0, 255).astype(np.uint8))\<close>\<close>
  json_dumps :: "'j \<Rightarrow> error + string"
  save_png :: "'i \<Rightarrow> (string \<times> string) list \<Rightarrow> error + bytes"
    \<comment> \<open>\<^verbatim>\<open>img.save(buffer, format="PNG", pnginfo=metadata, compress_level=4)\<close>: the buffer's
        bytes, for an image and the text chunks of its metadata\<close>
  upload_to_av :: "(string \<times> string \<times> bytes \<times> string) list \<Rightarrow> (string \<rightharpoonup> string) \<Rightarrow> error + unit"

fun add_extra_pnginfo ::
  "('t, 'i, 'j) upload_env \<Rightarrow> (string \<times> string) list \<Rightarrow> (string \<times> 'j) list \<Rightarrow>
   error + (string \<times> string) list" where
  \<comment> \<open>\<^verbatim>\<open>for x in extra_pnginfo: metadata.add_text(x, json.dumps(extra_pnginfo[x]))\<close>, the dict
      given by its items in iteration order; the \<^verbatim>\<open>logger.debug\<close> line only writes to the log\<close>
  "add_extra_pnginfo env metadata [] = Inr metadata"
| "add_extra_pnginfo env metadata ((x, v) # rest) =
     (case json_dumps env v of
        Inl e \<Rightarrow> Inl e
      | Inr text \<Rightarrow> add_extra_pnginfo env (metadata @ [(x, text)]) rest)"

definition png_metadata ::
  "('t, 'i, 'j) upload_env \<Rightarrow> 'j option \<Rightarrow> (string \<times> 'j) list option \<Rightarrow>
   error + (string \<times> string) list" where
  \<comment> \<open>lines 188 to 194: the text chunks of one image\<close>
  "png_metadata env prompt extra_pnginfo =
     (case (case prompt of
              None \<Rightarrow> Inr []
            | Some pr \<Rightarrow>
                (case json_dumps env pr of
                   Inl e \<Rightarrow> Inl e
                 | Inr text \<Rightarrow> Inr [(''prompt'', text)])) of
        Inl e \<Rightarrow> Inl e
      | Inr metadata \<Rightarrow>
          (case extra_pnginfo of
             None \<Rightarrow> Inr metadata
           | Some items \<Rightarrow> add_extra_pnginfo env metadata items))"

definition encode_image ::
  "('t, 'i, 'j) upload_env \<Rightarrow> 'j option \<Rightarrow> (string \<times> 'j) list option \<Rightarrow> 't \<Rightarrow> error + bytes" where
  \<comment> \<open>lines 186 to 198: one pass of the loop body, up to the filled buffer\<close>
  "encode_image env prompt extra_pnginfo image' =
     (case fromarray env image' of
        Inl e \<Rightarrow> Inl e
      | Inr img \<Rightarrow>
          (case png_metadata env prompt extra_pnginfo of
             Inl e \<Rightarrow> Inl e
           | Inr metadata \<Rightarrow> save_png env img metadata))"

fun upload_files ::
  "('t, 'i, 'j) upload_env \<Rightarrow> 'j option \<Rightarrow> (string \<times> 'j) list option \<Rightarrow>
   (string \<times> string \<times> bytes \<times> string) list \<Rightarrow> nat \<Rightarrow> 't list \<Rightarrow>
   error + (string \<times> string \<times> bytes \<times> string) list" where
  \<comment> \<open>\<^verbatim>\<open>for idx, image in enumerate(images)\<close>, from index \<open>idx\<close> on, appending to \<open>files\<close>\<close>
  "upload_files env prompt extra_pnginfo files idx [] = Inr files"
| "upload_files env prompt extra_pnginfo files idx (image' # images) =
     (case encode_image env prompt extra_pnginfo image' of
        Inl e \<Rightarrow> Inl e
      | Inr buffer \<Rightarrow>
          upload_files env prompt extra_pnginfo
            (files @ [(''files'', (''image-'' @ str_nat idx @ ''.png'', buffer, ''image/png''))])
            (Suc idx) images)"

definition upload_batch ::
  "('t, 'i, 'j) upload_env \<Rightarrow> 't list \<Rightarrow> string option \<Rightarrow> 'j option \<Rightarrow> (string \<times> 'j) list option \<Rightarrow>
   error + ((string \<times> string \<times> bytes \<times> string) list \<times> (string \<rightharpoonup> string))" where
  \<comment> \<open>lines 184 to 208: the two arguments of the upload call\<close>
  "upload_batch env images folder_id prompt extra_pnginfo =
     (case upload_files env prompt extra_pnginfo [] 0 images of
        Inl e \<Rightarrow> Inl e
      | Inr files \<Rightarrow>
          (let additional_data = [''success'' \<mapsto> ''true''];
               additional_data =
                 (case folder_id of
                    None \<Rightarrow> additional_data
                  | Some f \<Rightarrow> additional_data(''folderId'' \<mapsto> f))
           in Inr (files, additional_data)))"

definition upload_images ::
  "('t, 'i, 'j) upload_env \<Rightarrow> 't list \<Rightarrow> string option \<Rightarrow> 'j option \<Rightarrow> (string \<times> 'j) list option \<Rightarrow>
   ((string \<times> string \<times> bytes \<times> string) list \<times> (string \<rightharpoonup> string)) list \<times> (error + string)" where
  \<comment> \<open>the calls of \<^verbatim>\<open>upload_to_av\<close> the node makes, each with its two arguments, and the string
      of the 1-tuple it returns or the exception that ends it\<close>
  "upload_images env images folder_id prompt extra_pnginfo =
     (case upload_batch env images folder_id prompt extra_pnginfo of
        Inl e \<Rightarrow> ([], Inl e)
      | Inr (files, additional_data) \<Rightarrow>
          ([(files, additional_data)],
           case upload_to_av env files additional_data of
             Inl e \<Rightarrow> Inl e
           | Inr u \<Rightarrow> Inr ''Uploaded to ArtVenture!''))"

section \<open>Single-precision arithmetic\<close>

text \<open>
  The mask is computed in \<^verbatim>\<open>float32\<close>: \<^verbatim>\<open>astype(np.float32) / 255.0\<close> divides in single
  precision, and so does \<^verbatim>\<open>1.0 - tensor\<close>. A finite binary32 value is modelled by the rational
  it denotes, and an operation by the exact result rounded to nearest, ties to even, with 24
  bits of significand above the smallest exponent \<open>-126\<close>. Infinities and NaN are left out: no
  operand of this module leaves the interval from 0 to 255, and the only divisor is 255.
\<close>

definition floor_log2 :: "rat \<Rightarrow> int" where
  \<comment> \<open>for \<open>0 < x\<close>, the exponent \<open>e\<close> with \<open>2 ^ e \<le> x < 2 ^ (e + 1)\<close>\<close>
  "floor_log2 x =
     (let (p, q) = quotient_of x; d = bitlen p - bitlen q
      in if 2 powi d \<le> x then d else d - 1)"

definition f32_round :: "rat \<Rightarrow> rat" where
  "f32_round x =
     (if x = 0 then 0
      else
        (let e = max (floor_log2 \<bar>x\<bar>) (- 126);
             q = 2 powi (e - 23);
             n = \<lfloor>x / q\<rfloor>;
             r = x / q - of_int n;
             m = (if r < 1 / 2 then n
                  else if 1 / 2 < r then n + 1
                  else if even n then n else n + 1)
         in of_int m * q))"

definition f32_div :: "rat \<Rightarrow> rat \<Rightarrow> rat" where
  "f32_div x y = f32_round (x / y)"

definition f32_sub :: "rat \<Rightarrow> rat \<Rightarrow> rat" where
  "f32_sub x y = f32_round (x - y)"

section \<open>Image Ingest\<close>

text \<open>
  \<open>'i\<close> is a PIL image and \<open>'t\<close> the image tensor handed to the host. The calls into
  \<^verbatim>\<open>requests\<close>, \<^verbatim>\<open>base64\<close>, PIL and the host's \<^verbatim>\<open>folder_paths\<close> are parameters; each one that
  can raise returns an \<open>error\<close>.
\<close>

record response =
  status_code :: int
  response_text :: string
  response_content :: bytes

datatype net_call = HttpGet string nat
  \<comment> \<open>\<^verbatim>\<open>requests.get(url, timeout=seconds)\<close>\<close>

record ('i, 't) ingest_env =
  requests_get :: "string \<Rightarrow> nat \<Rightarrow> error + response"
  b64decode :: "string \<Rightarrow> error + bytes"
  image_open :: "bytes \<Rightarrow> error + 'i"
  exif_transpose :: "'i \<Rightarrow> error + 'i"
  convert :: "'i \<Rightarrow> string \<Rightarrow> error + 'i"
  image_width :: "'i \<Rightarrow> nat"
  image_height :: "'i \<Rightarrow> nat"
  get_save_image_path ::
    "string \<Rightarrow> string \<Rightarrow> nat \<Rightarrow> nat \<Rightarrow> error + (string \<times> string \<times> nat \<times> string \<times> string)"
  image_save :: "'i \<Rightarrow> string \<Rightarrow> error + unit"
    \<comment> \<open>\<^verbatim>\<open>image.save(path, format="PNG", compress_level=4)\<close>\<close>
  image_tensor :: "'i \<Rightarrow> 't"
    \<comment> \<open>lines 77 and 78: \<^verbatim>\<open>torch.from_numpy(np.array(image).astype(np.float32) / 255.0)[None,]\<close>\<close>
  getbands :: "'i \<Rightarrow> string list"
  getchannel :: "'i \<Rightarrow> string \<Rightarrow> 8 word list list"
    \<comment> \<open>\<^verbatim>\<open>np.array(i.getchannel(band))\<close>: the rows of one band, a \<^verbatim>\<open>uint8\<close> array of shape
        (height, width); called only for a band that \<open>getbands\<close> lists\<close>

record loader =
  output_dir :: string
  filename_prefix :: string

record preview =
  preview_filename :: string
  preview_subfolder :: string
  preview_type :: string

record 't ingest_result =
  ui_images :: "preview list"
  result_image :: 't
  result_mask :: "rat list list"

definition fetch_image :: "('i, 't) ingest_env \<Rightarrow> string \<Rightarrow> net_call list \<times> (error + 'i)" where
  \<comment> \<open>lines 44 to 51: the network calls made, and the opened image or the exception\<close>
  "fetch_image env url =
     (if startswith url ''data:image/'' then
        (case getitem (split url CHR '','') 1 of
           Inl e \<Rightarrow> ([], Inl e)
         | Inr payload \<Rightarrow>
             (case b64decode env payload of
                Inl e \<Rightarrow> ([], Inl e)
              | Inr data \<Rightarrow> ([], image_open env data)))
      else
        (case requests_get env url 5 of
           Inl e \<Rightarrow> ([HttpGet url 5], Inl e)
         | Inr response \<Rightarrow>
             if status_code response \<noteq> 200
             then ([HttpGet url 5], Inl (Exception (response_text response)))
             else ([HttpGet url 5], image_open env (response_content response))))"

definition alpha_mask :: "('i, 't) ingest_env \<Rightarrow> 'i \<Rightarrow> rat list list" where
  \<comment> \<open>lines 79 to 83\<close>
  "alpha_mask env i =
     (if ''A'' \<in> set (getbands env i)
      then map (map (\<lambda>a. f32_sub 1 (f32_div (of_nat (unat a)) 255))) (getchannel env i ''A'')
      else replicate 64 (replicate 64 0))"

definition process_image ::
  "('i, 't) ingest_env \<Rightarrow> loader \<Rightarrow> 'i \<Rightarrow> bool \<Rightarrow> error + 't ingest_result" where
  \<comment> \<open>lines 53 to 85, from the opened image on\<close>
  "process_image env self opened keep_alpha_channel =
     (case exif_transpose env opened of
        Inl e \<Rightarrow> Inl e
      | Inr i \<Rightarrow>
          (case (if \<not> keep_alpha_channel then convert env i ''RGB'' else Inr i) of
             Inl e \<Rightarrow> Inl e
           | Inr image' \<Rightarrow>
               (case get_save_image_path env (filename_prefix self) (output_dir self)
                       (image_width env image') (image_height env image') of
                  Inl e \<Rightarrow> Inl e
                | Inr (outdir, filename, counter, subfolder, u) \<Rightarrow>
                    (let file = filename @ ''_'' @ zero_padded 5 counter @ ''.png'' in
                     case image_save env image' (path_join outdir file) of
                       Inl e \<Rightarrow> Inl e
                     | Inr saved \<Rightarrow>
                         Inr \<lparr> ui_images =
                                 [\<lparr> preview_filename = file,
                                    preview_subfolder = subfolder,
                                    preview_type = ''temp'' \<rparr>],
                               result_image = image_tensor env image',
                               result_mask = alpha_mask env i \<rparr>))))"

definition load_image_from_url ::
  "('i, 't) ingest_env \<Rightarrow> loader \<Rightarrow> string \<Rightarrow> bool \<Rightarrow> net_call list \<times> (error + 't ingest_result)" where
  \<comment> \<open>\<^verbatim>\<open>keep_alpha_channel=False\<close> when the caller leaves it out\<close>
  "load_image_from_url env self url keep_alpha_channel =
     (case fetch_image env url of
        (calls, Inl e) \<Rightarrow> (calls, Inl e)
      | (calls, Inr opened) \<Rightarrow> (calls, process_image env self opened keep_alpha_channel))"

section \<open>Example inputs\<close>

definition example_heap :: "nat heap" where
  \<comment> \<open>a store whose pipe \<open>Obj 0\<close> already holds two keys\<close>
  "example_heap = initial_heap(Obj 0 := [''positive'' \<mapsto> PyStr ''a cat'', ''seed'' \<mapsto> PyStr ''7''])"

definition example_upload_env :: "(nat, nat, string) upload_env" where
  \<comment> \<open>tensors and images are numbers; a tensor above 255 does not convert; every upload
      succeeds\<close>
  "example_upload_env =
     \<lparr> fromarray = (\<lambda>t. if t < 256 then Inr t else Inl (Raised ''TypeError'')),
       json_dumps = (\<lambda>j. Inr j),
       save_png = (\<lambda>img metadata. Inr [of_nat img]),
       upload_to_av = (\<lambda>files additional_data. Inr ()) \<rparr>"

definition example_offline_upload_env :: "(nat, nat, string) upload_env" where
  \<comment> \<open>the same, with a remote service that cannot be reached\<close>
  "example_offline_upload_env =
     example_upload_env
       \<lparr> upload_to_av := (\<lambda>files additional_data. Inl (Raised ''ConnectionError'')) \<rparr>"

definition example_ingest_env :: "(string list \<times> 8 word list list, string) ingest_env" where
  \<comment> \<open>an image is its band names and the rows of its alpha band; three URLs answer with
      status 200, 203 and 404, every other host is unreachable\<close>
  "example_ingest_env =
     \<lparr> requests_get = (\<lambda>url timeout.
         if url = ''http://host/rgba.png''
         then Inr \<lparr> status_code = 200, response_text = ''(png)'', response_content = [1] \<rparr>
         else if url = ''http://host/proxied.png''
         then Inr \<lparr> status_code = 203, response_text = ''(png)'', response_content = [1] \<rparr>
         else if url = ''http://host/missing.png''
         then Inr \<lparr> status_code = 404, response_text = ''Not Found'', response_content = [] \<rparr>
         else Inl (Raised ''ConnectionError'')),
       b64decode = (\<lambda>payload. if payload = ''AA=='' then Inr [0] else Inl (Raised ''binascii.Error'')),
       image_open = (\<lambda>data.
         if data = [1] then Inr ([''R'', ''G'', ''B'', ''A''], [[255, 0], [128, 255]])
         else if data = [0] then Inr ([''R'', ''G'', ''B''], [[255, 255], [255, 255]])
         else Inl (Raised ''UnidentifiedImageError'')),
       exif_transpose = (\<lambda>i. Inr i),
       convert = (\<lambda>i mode. Inr (map (\<lambda>c. [c]) mode, snd i)),
       image_width = (\<lambda>i. 2),
       image_height = (\<lambda>i. 2),
       get_save_image_path = (\<lambda>prefix dir w h. Inr (dir, prefix, 3, '''', prefix)),
       image_save = (\<lambda>i path. Inr ()),
       image_tensor = (\<lambda>i. ''tensor''),
       getbands = fst,
       getchannel = (\<lambda>i band. snd i) \<rparr>"

definition example_loader :: loader where
  "example_loader = \<lparr> output_dir = ''/tmp/comfy'', filename_prefix = ''TempImageFromUrl'' \<rparr>"

section \<open>Facts about the pipe operations\<close>

lemma name_unless_sentinel_cases:
  "name_unless_sentinel x = (if x = ''None'' then PyNone else PyStr x)"
  by simp

lemma checkpoint_models_to_parameter_pipe_result:
  assumes "checkpoint_models_to_parameter_pipe h ckpt_name pipe a b c d e f g = (h', p)"
  shows "p = (case pipe of None \<Rightarrow> DefaultPipe CheckpointModelsToParametersPipe | Some r \<Rightarrow> r)"
    and "h' = h(p := (h p)(
        ''ckpt_name'' \<mapsto> name_unless_sentinel ckpt_name,
        ''secondary_ckpt_name'' \<mapsto> name_unless_sentinel (or_sentinel a),
        ''vae_name'' \<mapsto> name_unless_sentinel (or_sentinel b),
        ''upscaler_name'' \<mapsto> name_unless_sentinel (or_sentinel c),
        ''secondary_upscaler_name'' \<mapsto> name_unless_sentinel (or_sentinel d),
        ''lora_1_name'' \<mapsto> name_unless_sentinel (or_sentinel e),
        ''lora_2_name'' \<mapsto> name_unless_sentinel (or_sentinel f),
        ''lora_3_name'' \<mapsto> name_unless_sentinel (or_sentinel g)))"
  using assms
  unfolding checkpoint_models_to_parameter_pipe_def Let_def setitem_def
  by (simp_all split del: if_split, blast+)

lemma prompt_to_parameter_pipe_result:
  assumes "prompt_to_parameter_pipe h positive negative pipe im mk = (h', p)"
  shows "p = (case pipe of None \<Rightarrow> DefaultPipe PromptsToParametersPipe | Some r \<Rightarrow> r)"
    and "h' = h(p := (h p)(
        ''positive'' \<mapsto> PyStr positive,
        ''negative'' \<mapsto> PyStr negative,
        ''image'' \<mapsto> (case im of None \<Rightarrow> PyNone | Some t \<Rightarrow> PyTensor t),
        ''mask'' \<mapsto> (case mk of None \<Rightarrow> PyNone | Some t \<Rightarrow> PyTensor t)))"
  using assms
  unfolding prompt_to_parameter_pipe_def Let_def setitem_def
  by auto

lemma parameter_pipe_to_checkpoint_models_result:
  assumes "parameter_pipe_to_checkpoint_models h pipe = (h', out)"
  shows "h' = h"
    and "cm_pipe out = (case pipe of None \<Rightarrow> DefaultPipe ParametersPipeToCheckpointModels | Some r \<Rightarrow> r)"
    and "cm_ckpt_name out = dict_get h (cm_pipe out) ''ckpt_name'' PyNone"
    and "cm_secondary_ckpt_name out = dict_get h (cm_pipe out) ''secondary_ckpt_name'' PyNone"
    and "cm_vae_name out = dict_get h (cm_pipe out) ''vae_name'' PyNone"
    and "cm_upscaler_name out = dict_get h (cm_pipe out) ''upscaler_name'' PyNone"
    and "cm_secondary_upscaler_name out = dict_get h (cm_pipe out) ''secondary_upscaler_name'' PyNone"
    and "cm_lora_1_name out = dict_get h (cm_pipe out) ''lora_1_name'' PyNone"
    and "cm_lora_2_name out = dict_get h (cm_pipe out) ''lora_2_name'' PyNone"
    and "cm_lora_3_name out = dict_get h (cm_pipe out) ''lora_3_name'' PyNone"
  using assms
  unfolding parameter_pipe_to_checkpoint_models_def Let_def
  by auto

lemma parameter_pipe_to_prompt_result:
  assumes "parameter_pipe_to_prompt h pipe = (h', out)"
  shows "h' = h"
    and "pr_pipe out = (case pipe of None \<Rightarrow> DefaultPipe ParametersPipeToPrompts | Some r \<Rightarrow> r)"
    and "pr_positive out = dict_get h (pr_pipe out) ''positive'' PyNone"
    and "pr_negative out = dict_get h (pr_pipe out) ''negative'' PyNone"
    and "pr_image out = dict_get h (pr_pipe out) ''image'' PyNone"
    and "pr_mask out = dict_get h (pr_pipe out) ''mask'' PyNone"
  using assms
  unfolding parameter_pipe_to_prompt_def Let_def
  by auto

section \<open>Facts about lists, strings and the upload loop\<close>

lemma getitem_four:
  "getitem [a, b, c, d] i =
     (if i = 0 \<or> i = - 4 then Inr a
      else if i = 1 \<or> i = - 3 then Inr b
      else if i = 2 \<or> i = - 2 then Inr c
      else if i = 3 \<or> i = - 1 then Inr d
      else Inl IndexError)"
proof -
  consider "i < - 4" | "i = - 4" | "i = - 3" | "i = - 2" | "i = - 1"
    | "i = 0" | "i = 1" | "i = 2" | "i = 3" | "3 < i"
    by linarith
  then show ?thesis
    by cases (simp_all add: getitem_def)
qed

lemma str_nat_digit: "n < 10 \<Longrightarrow> str_nat n = [''0123456789'' ! n]"
  by (subst str_nat.simps) simp

lemma upload_files_result:
  "(case upload_files env prompt extra_pnginfo files idx images of
      Inl e \<Rightarrow> \<exists>image' \<in> set images. encode_image env prompt extra_pnginfo image' = Inl e
    | Inr out \<Rightarrow>
        \<exists>buffers. map (encode_image env prompt extra_pnginfo) images = map Inr buffers
          \<and> out = files @ map (\<lambda>(k, buffer).
                (''files'', (''image-'' @ str_nat k @ ''.png'', buffer, ''image/png'')))
              (enumerate idx buffers))"
proof (induction images arbitrary: files idx)
  case Nil
  then show ?case by simp
next
  case (Cons image' images)
  show ?case
  proof (cases "encode_image env prompt extra_pnginfo image'")
    case (Inl e)
    then show ?thesis by simp
  next
    case (Inr buffer)
    let ?files = "files @ [(''files'', (''image-'' @ str_nat idx @ ''.png'', buffer, ''image/png''))]"
    show ?thesis
    proof (cases "upload_files env prompt extra_pnginfo ?files (Suc idx) images")
      case (Inl e)
      with Cons.IH [where files = ?files and idx = "Suc idx"] Inr show ?thesis by auto
    next
      case out: (Inr out)
      with Cons.IH [where files = ?files and idx = "Suc idx"] obtain buffers where
        "map (encode_image env prompt extra_pnginfo) images = map Inr buffers"
        "out = ?files @ map (\<lambda>(k, buffer).
                (''files'', (''image-'' @ str_nat k @ ''.png'', buffer, ''image/png'')))
              (enumerate (Suc idx) buffers)"
        by auto
      then have "map (encode_image env prompt extra_pnginfo) (image' # images) = map Inr (buffer # buffers)
          \<and> out = files @ map (\<lambda>(k, buffer).
                (''files'', (''image-'' @ str_nat k @ ''.png'', buffer, ''image/png'')))
              (enumerate idx (buffer # buffers))"
        using Inr by simp
      then have "\<exists>buffers. map (encode_image env prompt extra_pnginfo) (image' # images) = map Inr buffers
          \<and> out = files @ map (\<lambda>(k, buffer).
                (''files'', (''image-'' @ str_nat k @ ''.png'', buffer, ''image/png'')))
              (enumerate idx buffers)"
        by (rule exI)
      then show ?thesis
        using Inr out by (simp only: upload_files.simps sum.case)
    qed
  qed
qed

lemma upload_batch_built:
  "(case upload_batch env images folder_id prompt extra_pnginfo of
      Inl e \<Rightarrow> \<exists>image' \<in> set images. encode_image env prompt extra_pnginfo image' = Inl e
    | Inr (files, additional_data) \<Rightarrow>
        length files = length images
      \<and> (\<forall>k < length images. \<exists>buffer.
            encode_image env prompt extra_pnginfo (images ! k) = Inr buffer
          \<and> files ! k = (''files'', (''image-'' @ str_nat k @ ''.png'', buffer, ''image/png'')))
      \<and> additional_data ''success'' = Some ''true''
      \<and> additional_data ''folderId'' = folder_id
      \<and> dom additional_data =
          (case folder_id of None \<Rightarrow> {''success''} | Some f \<Rightarrow> {''success'', ''folderId''}))"
proof (cases "upload_files env prompt extra_pnginfo [] 0 images")
  case (Inl e)
  with upload_files_result [where env = env and prompt = prompt and extra_pnginfo = extra_pnginfo
      and files = "[]" and idx = 0 and images = images] show ?thesis
    by (simp add: upload_batch_def)
next
  case (Inr files)
  with upload_files_result [where env = env and prompt = prompt and extra_pnginfo = extra_pnginfo
      and files = "[]" and idx = 0 and images = images] obtain buffers where
    enc: "map (encode_image env prompt extra_pnginfo) images = map Inr buffers"
    and files: "files = map (\<lambda>(k, buffer).
                (''files'', (''image-'' @ str_nat k @ ''.png'', buffer, ''image/png'')))
              (enumerate 0 buffers)"
    by auto
  from enc have len: "length buffers = length images"
    by (metis length_map)
  have entries: "\<forall>k < length images. \<exists>buffer.
            encode_image env prompt extra_pnginfo (images ! k) = Inr buffer
          \<and> files ! k = (''files'', (''image-'' @ str_nat k @ ''.png'', buffer, ''image/png''))"
  proof (intro allI impI)
    fix k
    assume k: "k < length images"
    have "map (encode_image env prompt extra_pnginfo) images ! k = map Inr buffers ! k"
      using enc by simp
    then have "encode_image env prompt extra_pnginfo (images ! k) = Inr (buffers ! k)"
      using k len by simp
    moreover have "files ! k =
        (''files'', (''image-'' @ str_nat k @ ''.png'', buffers ! k, ''image/png''))"
      using k len by (simp add: files nth_enumerate_eq)
    ultimately show "\<exists>buffer.
            encode_image env prompt extra_pnginfo (images ! k) = Inr buffer
          \<and> files ! k = (''files'', (''image-'' @ str_nat k @ ''.png'', buffer, ''image/png''))"
      by blast
  qed
  have "length files = length images"
    using len by (simp add: files)
  with entries Inr show ?thesis
    by (cases folder_id) (auto simp add: upload_batch_def Let_def)
qed

section \<open>Facts about single-precision rounding\<close>

text \<open>
  \<open>floor_log2\<close> is the binary exponent, and \<open>f32_round\<close> returns a multiple of the spacing at
  that exponent that lies within half a spacing of its argument.
\<close>

lemma floor_log2_bounds:
  assumes "0 < x"
  shows "2 powi floor_log2 x \<le> x \<and> x < 2 powi (floor_log2 x + 1)"
proof -
  obtain p q where pq: "quotient_of x = (p, q)"
    by (cases "quotient_of x")
  then have q: "0 < q" and x: "x = of_int p / of_int q"
    by (simp_all add: quotient_of_denom_pos quotient_of_div)
  from assms x q have p: "0 < p"
    by (simp add: zero_less_divide_iff)
  define bp where "bp = bitlen p"
  define bq where "bq = bitlen q"
  have bp: "2 ^ nat (bp - 1) \<le> p" "p < 2 ^ nat bp" and bq: "2 ^ nat (bq - 1) \<le> q" "q < 2 ^ nat bq"
    using bitlen_bounds [OF p] bitlen_bounds [OF q] by (simp_all add: bp_def bq_def)
  have pos: "1 \<le> bp" "1 \<le> bq"
    using p q by (simp_all add: bp_def bq_def bitlen_def floorlog_def)
  have int_pow: "(2::rat) powi k = of_int (2 ^ nat k)" if "0 \<le> k" for k
    using that by (simp add: power_int_def)
  have rp: "(2::rat) powi (bp - 1) \<le> of_int p" "of_int p < (2::rat) powi bp"
    using bp pos(1) by (simp_all only: int_pow of_int_le_iff of_int_less_iff)
  have rq: "(2::rat) powi (bq - 1) \<le> of_int q" "of_int q < (2::rat) powi bq"
    using bq pos(2) by (simp_all only: int_pow of_int_le_iff of_int_less_iff)
  have "x < 2 powi bp / 2 powi (bq - 1)"
    unfolding x using rp(2) rq(1) p by (intro frac_less) simp_all
  also have "\<dots> = 2 powi (bp - (bq - 1))"
    by (simp add: power_int_diff)
  finally have upper: "x < 2 powi (bp - bq + 1)"
    by (simp add: algebra_simps)
  have "(2::rat) powi (bp - 1 - bq) = 2 powi (bp - 1) / 2 powi bq"
    by (simp add: power_int_diff)
  also have "\<dots> \<le> x"
    unfolding x using rp(1) rq(2) p q by (intro frac_le) simp_all
  finally have lower: "2 powi (bp - bq - 1) \<le> x"
    by (simp add: algebra_simps)
  show ?thesis
    using upper lower
    by (simp add: floor_log2_def pq Let_def bp_def [symmetric] bq_def [symmetric] not_le less_imp_le)
qed

lemma f32_round_nearest:
  assumes "x \<noteq> 0"
  shows "\<exists>m. f32_round x = of_int m * 2 powi (max (floor_log2 \<bar>x\<bar>) (- 126) - 23)
           \<and> \<bar>x - of_int m * 2 powi (max (floor_log2 \<bar>x\<bar>) (- 126) - 23)\<bar>
               \<le> 2 powi (max (floor_log2 \<bar>x\<bar>) (- 126) - 23) / 2"
proof -
  define q :: rat where "q = 2 powi (max (floor_log2 \<bar>x\<bar>) (- 126) - 23)"
  have q: "0 < q"
    by (simp add: q_def)
  define n where "n = \<lfloor>x / q\<rfloor>"
  define r where "r = x / q - of_int n"
  define m where "m = (if r < 1 / 2 then n else if 1 / 2 < r then n + 1
      else if even n then n else n + 1)"
  have r: "0 \<le> r" "r < 1"
    unfolding r_def n_def by linarith+
  have round: "f32_round x = of_int m * q"
    using assms(1) by (simp add: f32_round_def Let_def q_def m_def r_def n_def)
  have diff: "x / q - of_int m = r - of_int (m - n)"
    by (simp add: r_def)
  consider "r < 1 / 2" | "1 / 2 < r" | "r = 1 / 2"
    by linarith
  then have "\<bar>r - of_int (m - n)\<bar> \<le> 1 / 2"
  proof cases
    case 1
    then have "m = n" by (simp add: m_def)
    with 1 r show ?thesis by simp
  next
    case 2
    then have "m = n + 1" by (simp add: m_def)
    with 2 r show ?thesis by simp
  next
    case 3
    then have "m = n \<or> m = n + 1" by (simp add: m_def)
    with 3 show ?thesis by auto
  qed
  then have "\<bar>x / q - of_int m\<bar> \<le> 1 / 2"
    by (simp only: diff)
  then have "\<bar>x / q - of_int m\<bar> * q \<le> 1 / 2 * q"
    using q by (intro mult_right_mono) simp_all
  also have "\<bar>x / q - of_int m\<bar> * q = \<bar>x - of_int m * q\<bar>"
  proof -
    have "\<bar>x / q - of_int m\<bar> * q = \<bar>(x / q - of_int m) * q\<bar>"
      using q by (simp add: abs_mult)
    also have "(x / q - of_int m) * q = x - of_int m * q"
      using q by (simp add: left_diff_distrib)
    finally show ?thesis .
  qed
  finally have "\<bar>x - of_int m * q\<bar> \<le> q / 2"
    by simp
  with round show ?thesis
    unfolding q_def by blast
qed

section \<open>Facts about Image Ingest\<close>

lemma f32_round_0: "f32_round 0 = 0"
  by (simp add: f32_round_def)

lemma f32_round_1: "f32_round 1 = 1"
  by (simp add: f32_round_def floor_log2_def Let_def)

lemma mask_of_opaque: "f32_sub 1 (f32_div (of_nat (unat (255 :: 8 word))) 255) = 0"
  by (simp add: f32_sub_def f32_div_def f32_round_0 f32_round_1)

lemma mask_of_transparent: "f32_sub 1 (f32_div (of_nat (unat (0 :: 8 word))) 255) = 1"
  by (simp add: f32_sub_def f32_div_def f32_round_0 f32_round_1)

lemma load_image_from_url_returns:
  assumes "load_image_from_url env self url keep_alpha_channel = (calls, Inr out)"
  shows "\<exists>opened i. snd (fetch_image env url) = Inr opened \<and> exif_transpose env opened = Inr i
           \<and> result_mask out = alpha_mask env i"
  using assms
  unfolding load_image_from_url_def process_image_def Let_def
  by (auto split: prod.splits sum.splits if_splits)

lemma mask_of_half: "f32_sub 1 (f32_div (of_nat (unat (128 :: 8 word))) 255) = 8355711 / 16777216"
  by code_simp

lemma zero_padded_3: "zero_padded 5 3 = ''00003''"
  by (simp add: zero_padded_def str_nat_digit numeral_eq_Suc)

lemma example_fetch_rgba:
  "fetch_image example_ingest_env ''http://host/rgba.png'' =
     ([HttpGet ''http://host/rgba.png'' 5], Inr ([''R'', ''G'', ''B'', ''A''], [[255, 0], [128, 255]]))"
  by (simp add: fetch_image_def example_ingest_env_def startswith_def)

lemma example_fetch_data_uri:
  "fetch_image example_ingest_env ''data:image/png;base64,AA=='' =
     ([], Inr ([''R'', ''G'', ''B''], [[255, 255], [255, 255]]))"
  by (simp add: fetch_image_def example_ingest_env_def startswith_def getitem_def split_def)

lemma example_process_rgba:
  "\<exists>out. process_image example_ingest_env example_loader
       ([''R'', ''G'', ''B'', ''A''], [[255, 0], [128, 255]]) True = Inr out"
  by (simp add: process_image_def example_ingest_env_def Let_def)

lemma example_process_rgb:
  "\<exists>out. process_image example_ingest_env example_loader
       ([''R'', ''G'', ''B''], [[255, 255], [255, 255]]) False = Inr out
     \<and> ui_images out = [\<lparr> preview_filename = ''TempImageFromUrl_00003.png'',
            preview_subfolder = [], preview_type = ''temp'' \<rparr>]"
  by (simp add: process_image_def example_ingest_env_def example_loader_def Let_def zero_padded_3)

section \<open>The claims\<close>

text \<open>
  Claim C1, as amended. \<^verbatim>\<open>image_muxer\<close> indexes the list \<^verbatim>\<open>[image_1, image_2, image_3, image_4]\<close>
  with Python's list indexing: selectors 0 to 3 return the element of that slot, unchanged, and
  the selectors -4 to -1 return the element counted from the end (so -1 is \<^verbatim>\<open>image_4\<close>). An
  optional image that was left out is \<^verbatim>\<open>None\<close>, which is returned as it is. Every other selector
  raises \<^verbatim>\<open>IndexError\<close>.
\<close>

theorem image_muxer_selects:
  "image_muxer image_1 image_2 input_selector image_3 image_4 =
     (if input_selector = 0 \<or> input_selector = - 4 then Inr image_1
      else if input_selector = 1 \<or> input_selector = - 3 then Inr image_2
      else if input_selector = 2 \<or> input_selector = - 2
        then Inr (case image_3 of None \<Rightarrow> PyNone | Some v \<Rightarrow> v)
      else if input_selector = 3 \<or> input_selector = - 1
        then Inr (case image_4 of None \<Rightarrow> PyNone | Some v \<Rightarrow> v)
      else Inl IndexError)"
  unfolding image_muxer_def Let_def getitem_four ..

theorem image_muxer_selects_witness:
  "image_muxer (PyTensor (1::nat)) (PyTensor 2) 0 None None = Inr (PyTensor 1)
   \<and> image_muxer (PyTensor (1::nat)) (PyTensor 2) 3 (Some (PyTensor 3)) None = Inr PyNone
   \<and> image_muxer (PyTensor (1::nat)) (PyTensor 2) (- 2) (Some (PyTensor 3)) None = Inr (PyTensor 3)
   \<and> image_muxer (PyTensor (1::nat)) (PyTensor 2) 4 (Some (PyTensor 3)) (Some (PyTensor 4)) =
       Inl IndexError
   \<and> image_muxer (PyTensor (1::nat)) (PyTensor 2) (- 5) (Some (PyTensor 3)) (Some (PyTensor 4)) =
       Inl IndexError"
  using image_muxer_selects [of "PyTensor (1::nat)" "PyTensor 2" 0 None None]
    image_muxer_selects [of "PyTensor (1::nat)" "PyTensor 2" 3 "Some (PyTensor 3)" None]
    image_muxer_selects [of "PyTensor (1::nat)" "PyTensor 2" "- 2" "Some (PyTensor 3)" None]
    image_muxer_selects [of "PyTensor (1::nat)" "PyTensor 2" 4 "Some (PyTensor 3)" "Some (PyTensor 4)"]
    image_muxer_selects [of "PyTensor (1::nat)" "PyTensor 2" "- 5" "Some (PyTensor 3)" "Some (PyTensor 4)"]
  by simp

text \<open>
  Claim C1 as stated fails at selector -1: it addresses none of the slots 0 to 3, and the node
  returns \<^verbatim>\<open>image_4\<close> instead of raising.
\<close>

theorem image_muxer_counterexample:
  "image_muxer (PyTensor (1::nat)) (PyTensor 2) (- 1) None (Some (PyTensor 4)) = Inr (PyTensor 4)
   \<and> image_muxer (PyTensor (1::nat)) (PyTensor 2) (- 1) None (Some (PyTensor 4)) \<noteq> Inl IndexError"
  by (simp add: image_muxer_def getitem_def)

text \<open>
  Claim C2. After \<^verbatim>\<open>checkpoint_models_to_parameter_pipe\<close>, each of the eight keys of the pipe
  holds \<^verbatim>\<open>None\<close> when the name bound to its parameter is the sentinel \<^verbatim>\<open>"None"\<close>, and that name
  otherwise. A parameter the caller leaves out is bound to the sentinel; \<^verbatim>\<open>ckpt_name\<close> is always
  given, and is stored by the same rule.
\<close>

theorem checkpoint_models_to_parameter_pipe_stores:
  assumes "checkpoint_models_to_parameter_pipe h ckpt_name pipe secondary_ckpt_name vae_name
             upscaler_name secondary_upscaler_name lora_1_name lora_2_name lora_3_name = (h', p)"
  shows "p = (case pipe of None \<Rightarrow> DefaultPipe CheckpointModelsToParametersPipe | Some r \<Rightarrow> r)
       \<and> h' p ''ckpt_name'' = Some (if ckpt_name = ''None'' then PyNone else PyStr ckpt_name)
       \<and> h' p ''secondary_ckpt_name'' =
           Some (if or_sentinel secondary_ckpt_name = ''None'' then PyNone
                 else PyStr (or_sentinel secondary_ckpt_name))
       \<and> h' p ''vae_name'' =
           Some (if or_sentinel vae_name = ''None'' then PyNone else PyStr (or_sentinel vae_name))
       \<and> h' p ''upscaler_name'' =
           Some (if or_sentinel upscaler_name = ''None'' then PyNone
                 else PyStr (or_sentinel upscaler_name))
       \<and> h' p ''secondary_upscaler_name'' =
           Some (if or_sentinel secondary_upscaler_name = ''None'' then PyNone
                 else PyStr (or_sentinel secondary_upscaler_name))
       \<and> h' p ''lora_1_name'' =
           Some (if or_sentinel lora_1_name = ''None'' then PyNone
                 else PyStr (or_sentinel lora_1_name))
       \<and> h' p ''lora_2_name'' =
           Some (if or_sentinel lora_2_name = ''None'' then PyNone
                 else PyStr (or_sentinel lora_2_name))
       \<and> h' p ''lora_3_name'' =
           Some (if or_sentinel lora_3_name = ''None'' then PyNone
                 else PyStr (or_sentinel lora_3_name))"
  using checkpoint_models_to_parameter_pipe_result [OF assms]
  by (simp add: name_unless_sentinel_cases split del: if_split)

theorem checkpoint_models_to_parameter_pipe_stores_witness:
  "\<exists>h' p. checkpoint_models_to_parameter_pipe (initial_heap :: nat heap) ''None'' (Some (Obj 0))
       (Some ''b.ckpt'') (Some ''None'') None None (Some ''l.safetensors'') None None = (h', p)
     \<and> p = Obj 0
     \<and> h' p ''ckpt_name'' = Some PyNone
     \<and> h' p ''secondary_ckpt_name'' = Some (PyStr ''b.ckpt'')
     \<and> h' p ''vae_name'' = Some PyNone
     \<and> h' p ''upscaler_name'' = Some PyNone
     \<and> h' p ''lora_1_name'' = Some (PyStr ''l.safetensors'')"
proof -
  obtain h' p where call:
    "checkpoint_models_to_parameter_pipe (initial_heap :: nat heap) ''None'' (Some (Obj 0))
       (Some ''b.ckpt'') (Some ''None'') None None (Some ''l.safetensors'') None None = (h', p)"
    by (cases "checkpoint_models_to_parameter_pipe (initial_heap :: nat heap) ''None'' (Some (Obj 0))
       (Some ''b.ckpt'') (Some ''None'') None None (Some ''l.safetensors'') None None") 
  have "p = Obj 0
     \<and> h' p ''ckpt_name'' = Some PyNone
     \<and> h' p ''secondary_ckpt_name'' = Some (PyStr ''b.ckpt'')
     \<and> h' p ''vae_name'' = Some PyNone
     \<and> h' p ''upscaler_name'' = Some PyNone
     \<and> h' p ''lora_1_name'' = Some (PyStr ''l.safetensors'')"
    using checkpoint_models_to_parameter_pipe_stores [OF call] by auto
  with call show ?thesis by blast
qed

text \<open>
  Claim C3. Both to-pipe operations leave every key of the pipe that they do not write with
  the value it had, and leave every other dict of the store as it was.
\<close>

theorem to_pipe_keeps_unrelated_keys:
  "(checkpoint_models_to_parameter_pipe h ckpt_name pipe secondary_ckpt_name vae_name
        upscaler_name secondary_upscaler_name lora_1_name lora_2_name lora_3_name = (h1, p1) \<longrightarrow>
      (\<forall>k. k \<notin> {''ckpt_name'', ''secondary_ckpt_name'', ''vae_name'', ''upscaler_name'',
                ''secondary_upscaler_name'', ''lora_1_name'', ''lora_2_name'', ''lora_3_name''} \<longrightarrow>
           h1 p1 k = h p1 k) \<and>
      (\<forall>r. r \<noteq> p1 \<longrightarrow> h1 r = h r)) \<and>
   (prompt_to_parameter_pipe h positive negative pipe' image' mask' = (h2, p2) \<longrightarrow>
      (\<forall>k. k \<notin> {''positive'', ''negative'', ''image'', ''mask''} \<longrightarrow> h2 p2 k = h p2 k) \<and>
      (\<forall>r. r \<noteq> p2 \<longrightarrow> h2 r = h r))"
proof (intro conjI impI allI)
  fix k
  assume call: "checkpoint_models_to_parameter_pipe h ckpt_name pipe secondary_ckpt_name vae_name
        upscaler_name secondary_upscaler_name lora_1_name lora_2_name lora_3_name = (h1, p1)"
    and k: "k \<notin> {''ckpt_name'', ''secondary_ckpt_name'', ''vae_name'', ''upscaler_name'',
                ''secondary_upscaler_name'', ''lora_1_name'', ''lora_2_name'', ''lora_3_name''}"
  from k show "h1 p1 k = h p1 k"
    unfolding checkpoint_models_to_parameter_pipe_result(2) [OF call]
    by (simp split del: if_split)
next
  fix r
  assume call: "checkpoint_models_to_parameter_pipe h ckpt_name pipe secondary_ckpt_name vae_name
        upscaler_name secondary_upscaler_name lora_1_name lora_2_name lora_3_name = (h1, p1)"
    and r: "r \<noteq> p1"
  from r show "h1 r = h r"
    unfolding checkpoint_models_to_parameter_pipe_result(2) [OF call]
    by (simp split del: if_split)
next
  fix k
  assume call: "prompt_to_parameter_pipe h positive negative pipe' image' mask' = (h2, p2)"
    and k: "k \<notin> {''positive'', ''negative'', ''image'', ''mask''}"
  from k show "h2 p2 k = h p2 k"
    unfolding prompt_to_parameter_pipe_result(2) [OF call]
    by simp
next
  fix r
  assume call: "prompt_to_parameter_pipe h positive negative pipe' image' mask' = (h2, p2)"
    and r: "r \<noteq> p2"
  from r show "h2 r = h r"
    unfolding prompt_to_parameter_pipe_result(2) [OF call]
    by simp
qed

theorem to_pipe_keeps_unrelated_keys_witness:
  "fst (checkpoint_models_to_parameter_pipe example_heap ''a.ckpt'' (Some (Obj 0))
          None None None None None None None) (Obj 0) ''positive'' = Some (PyStr ''a cat'')
   \<and> fst (prompt_to_parameter_pipe example_heap ''a dog'' ''blurry'' (Some (Obj 0)) None None)
          (Obj 0) ''seed'' = Some (PyStr ''7'')"
proof -
  obtain h1 p1 where c1:
    "checkpoint_models_to_parameter_pipe example_heap ''a.ckpt'' (Some (Obj 0))
          None None None None None None None = (h1, p1)"
    by (rule prod.exhaust)
  obtain h2 p2 where c2:
    "prompt_to_parameter_pipe example_heap ''a dog'' ''blurry'' (Some (Obj 0)) None None = (h2, p2)"
    by (rule prod.exhaust)
  have p1: "p1 = Obj 0"
    using c1 by (simp add: checkpoint_models_to_parameter_pipe_def Let_def)
  have p2: "p2 = Obj 0"
    using c2 by (simp add: prompt_to_parameter_pipe_def Let_def)
  note keeps = to_pipe_keeps_unrelated_keys [of example_heap "''a.ckpt''" "Some (Obj 0)"
      None None None None None None None h1 p1 "''a dog''" "''blurry''" "Some (Obj 0)" None None h2 p2]
  have "h1 p1 ''positive'' = example_heap p1 ''positive''"
    using keeps c1 by simp
  then have "h1 (Obj 0) ''positive'' = Some (PyStr ''a cat'')"
    by (simp add: p1 example_heap_def)
  moreover have "h2 p2 ''seed'' = example_heap p2 ''seed''"
    using keeps c2 by simp
  then have "h2 (Obj 0) ''seed'' = Some (PyStr ''7'')"
    by (simp add: p2 example_heap_def)
  ultimately show ?thesis
    by (simp add: c1 c2)
qed

text \<open>
  Claim C4. Writing the checkpoint names into a pipe and reading them back from the pipe that
  was returned gives, for each of the eight names, the name written, or \<^verbatim>\<open>None\<close> where the
  sentinel \<^verbatim>\<open>"None"\<close> was written. The witness is the spec's example: \<^verbatim>\<open>"a.ckpt"\<close> with
  \<^verbatim>\<open>vae_name="None"\<close>.
\<close>

theorem checkpoint_models_round_trip:
  assumes "checkpoint_models_to_parameter_pipe h ckpt_name pipe secondary_ckpt_name vae_name
             upscaler_name secondary_upscaler_name lora_1_name lora_2_name lora_3_name = (h1, p)"
      and "parameter_pipe_to_checkpoint_models h1 (Some p) = (h2, out)"
  shows "cm_pipe out = p
       \<and> cm_ckpt_name out = (if ckpt_name = ''None'' then PyNone else PyStr ckpt_name)
       \<and> cm_secondary_ckpt_name out =
           (if or_sentinel secondary_ckpt_name = ''None'' then PyNone
            else PyStr (or_sentinel secondary_ckpt_name))
       \<and> cm_vae_name out =
           (if or_sentinel vae_name = ''None'' then PyNone else PyStr (or_sentinel vae_name))
       \<and> cm_upscaler_name out =
           (if or_sentinel upscaler_name = ''None'' then PyNone
            else PyStr (or_sentinel upscaler_name))
       \<and> cm_secondary_upscaler_name out =
           (if or_sentinel secondary_upscaler_name = ''None'' then PyNone
            else PyStr (or_sentinel secondary_upscaler_name))
       \<and> cm_lora_1_name out =
           (if or_sentinel lora_1_name = ''None'' then PyNone else PyStr (or_sentinel lora_1_name))
       \<and> cm_lora_2_name out =
           (if or_sentinel lora_2_name = ''None'' then PyNone else PyStr (or_sentinel lora_2_name))
       \<and> cm_lora_3_name out =
           (if or_sentinel lora_3_name = ''None'' then PyNone else PyStr (or_sentinel lora_3_name))"
proof -
  note w = checkpoint_models_to_parameter_pipe_result(2) [OF assms(1)]
  note r = parameter_pipe_to_checkpoint_models_result [OF assms(2)]
  have pipe: "cm_pipe out = p"
    using r(2) by simp
  show ?thesis
    unfolding r(3-10) pipe
    by (simp add: pipe w dict_get_def name_unless_sentinel_cases split del: if_split)
qed

theorem checkpoint_models_round_trip_witness:
  "\<exists>h1 p h2 out.
      checkpoint_models_to_parameter_pipe (initial_heap :: nat heap) ''a.ckpt'' None
        None (Some ''None'') None None None None None = (h1, p)
    \<and> parameter_pipe_to_checkpoint_models h1 (Some p) = (h2, out)
    \<and> cm_ckpt_name out = PyStr ''a.ckpt''
    \<and> cm_vae_name out = PyNone"
proof -
  obtain h1 p where c1:
    "checkpoint_models_to_parameter_pipe (initial_heap :: nat heap) ''a.ckpt'' None
        None (Some ''None'') None None None None None = (h1, p)"
    by (rule prod.exhaust)
  obtain h2 out where c2: "parameter_pipe_to_checkpoint_models h1 (Some p) = (h2, out)"
    by (rule prod.exhaust)
  have "cm_ckpt_name out = PyStr ''a.ckpt'' \<and> cm_vae_name out = PyNone"
    using checkpoint_models_round_trip [OF c1 c2] by simp
  with c1 c2 show ?thesis
    by blast
qed

text \<open>
  Claim C5. \<^verbatim>\<open>prompt_to_parameter_pipe\<close> stores all four keys whatever the pipe held before,
  \<^verbatim>\<open>None\<close> for an image or mask that is left out, and \<^verbatim>\<open>parameter_pipe_to_prompt\<close> on the
  returned pipe gives the four values back.
\<close>

theorem prompts_round_trip:
  assumes "prompt_to_parameter_pipe h positive negative pipe image' mask' = (h1, p)"
      and "parameter_pipe_to_prompt h1 (Some p) = (h2, out)"
  shows "h1 p ''positive'' = Some (PyStr positive)
       \<and> h1 p ''negative'' = Some (PyStr negative)
       \<and> h1 p ''image'' = Some (case image' of None \<Rightarrow> PyNone | Some t \<Rightarrow> PyTensor t)
       \<and> h1 p ''mask'' = Some (case mask' of None \<Rightarrow> PyNone | Some t \<Rightarrow> PyTensor t)
       \<and> pr_pipe out = p
       \<and> pr_positive out = PyStr positive
       \<and> pr_negative out = PyStr negative
       \<and> pr_image out = (case image' of None \<Rightarrow> PyNone | Some t \<Rightarrow> PyTensor t)
       \<and> pr_mask out = (case mask' of None \<Rightarrow> PyNone | Some t \<Rightarrow> PyTensor t)"
proof -
  note w = prompt_to_parameter_pipe_result(2) [OF assms(1)]
  note r = parameter_pipe_to_prompt_result [OF assms(2)]
  have pipe: "pr_pipe out = p"
    using r(2) by simp
  show ?thesis
    unfolding r(3-6) pipe
    by (simp add: pipe w dict_get_def)
qed

theorem prompts_round_trip_witness:
  "\<exists>h1 p h2 out.
      prompt_to_parameter_pipe example_heap ''pos'' ''neg'' (Some (Obj 0)) None None = (h1, p)
    \<and> parameter_pipe_to_prompt h1 (Some p) = (h2, out)
    \<and> pr_positive out = PyStr ''pos''
    \<and> pr_negative out = PyStr ''neg''
    \<and> pr_image out = PyNone
    \<and> pr_mask out = PyNone"
proof -
  obtain h1 p where c1:
    "prompt_to_parameter_pipe example_heap ''pos'' ''neg'' (Some (Obj 0)) None None = (h1, p)"
    by (rule prod.exhaust)
  obtain h2 out where c2: "parameter_pipe_to_prompt h1 (Some p) = (h2, out)"
    by (rule prod.exhaust)
  have "pr_positive out = PyStr ''pos'' \<and> pr_negative out = PyStr ''neg''
      \<and> pr_image out = PyNone \<and> pr_mask out = PyNone"
    using prompts_round_trip [OF c1 c2] by simp
  with c1 c2 show ?thesis
    by blast
qed

text \<open>
  Claim C6. \<^verbatim>\<open>upload_images\<close> either makes no upload call, and then it ends with the
  exception of an image that failed to encode, or it calls \<^verbatim>\<open>upload_to_av\<close> exactly once, and
  its outcome is that of the call. The batch handed over has one entry per image, in order:
  entry \<open>k\<close> is named \<^verbatim>\<open>image-k.png\<close>, carries the PNG bytes of image \<open>k\<close> and the mime type
  \<^verbatim>\<open>image/png\<close>. The form fields handed over are \<^verbatim>\<open>success="true"\<close>, and \<^verbatim>\<open>folderId\<close> exactly
  when a folder id is given.
\<close>

theorem upload_images_entries_and_fields:
  "(\<exists>e. upload_images env images folder_id prompt extra_pnginfo = ([], Inl e)
       \<and> (\<exists>image' \<in> set images. encode_image env prompt extra_pnginfo image' = Inl e))
   \<or> (\<exists>files additional_data.
        upload_images env images folder_id prompt extra_pnginfo =
          ([(files, additional_data)],
           case upload_to_av env files additional_data of
             Inl e \<Rightarrow> Inl e
           | Inr u \<Rightarrow> Inr ''Uploaded to ArtVenture!'')
      \<and> length files = length images
      \<and> (\<forall>k < length images. \<exists>buffer.
            encode_image env prompt extra_pnginfo (images ! k) = Inr buffer
          \<and> files ! k = (''files'', (''image-'' @ str_nat k @ ''.png'', buffer, ''image/png'')))
      \<and> additional_data ''success'' = Some ''true''
      \<and> additional_data ''folderId'' = folder_id
      \<and> dom additional_data =
          (case folder_id of None \<Rightarrow> {''success''} | Some f \<Rightarrow> {''success'', ''folderId''}))"
proof (cases "upload_batch env images folder_id prompt extra_pnginfo")
  case (Inl e)
  with upload_batch_built [where env = env and images = images and folder_id = folder_id
      and prompt = prompt and extra_pnginfo = extra_pnginfo]
  have "\<exists>image' \<in> set images. encode_image env prompt extra_pnginfo image' = Inl e"
    by simp
  moreover from Inl have "upload_images env images folder_id prompt extra_pnginfo = ([], Inl e)"
    by (simp add: upload_images_def)
  ultimately show ?thesis
    by blast
next
  case (Inr batch)
  obtain files additional_data where batch: "batch = (files, additional_data)"
    by (cases batch)
  from Inr batch upload_batch_built [where env = env and images = images and folder_id = folder_id
      and prompt = prompt and extra_pnginfo = extra_pnginfo]
  have built: "length files = length images
      \<and> (\<forall>k < length images. \<exists>buffer.
            encode_image env prompt extra_pnginfo (images ! k) = Inr buffer
          \<and> files ! k = (''files'', (''image-'' @ str_nat k @ ''.png'', buffer, ''image/png'')))
      \<and> additional_data ''success'' = Some ''true''
      \<and> additional_data ''folderId'' = folder_id
      \<and> dom additional_data =
          (case folder_id of None \<Rightarrow> {''success''} | Some f \<Rightarrow> {''success'', ''folderId''})"
    by simp
  from Inr batch have "upload_images env images folder_id prompt extra_pnginfo =
          ([(files, additional_data)],
           case upload_to_av env files additional_data of
             Inl e \<Rightarrow> Inl e
           | Inr u \<Rightarrow> Inr ''Uploaded to ArtVenture!'')"
    by (simp add: upload_images_def)
  with built show ?thesis
    by blast
qed

theorem upload_images_entries_and_fields_witness:
  "upload_images example_upload_env [7] (Some ''f1'') None None =
     ([([(''files'', (''image-0.png'', [7], ''image/png''))],
        [''success'' \<mapsto> ''true'', ''folderId'' \<mapsto> ''f1''])],
      Inr ''Uploaded to ArtVenture!'')
   \<and> upload_images example_upload_env [7, 8] None (Some ''p'') None =
     ([([(''files'', (''image-0.png'', [7], ''image/png'')),
         (''files'', (''image-1.png'', [8], ''image/png''))],
        [''success'' \<mapsto> ''true''])],
      Inr ''Uploaded to ArtVenture!'')
   \<and> upload_images example_offline_upload_env [7] None None None =
     ([([(''files'', (''image-0.png'', [7], ''image/png''))], [''success'' \<mapsto> ''true''])],
      Inl (Raised ''ConnectionError''))
   \<and> upload_images example_upload_env [7, 300] None None None = ([], Inl (Raised ''TypeError''))"
proof -
  have digits: "str_nat 0 = ''0''" "str_nat (Suc 0) = ''1''"
    by (simp_all add: str_nat_digit)
  have enc: "encode_image example_upload_env prompt None 7 = Inr [7]"
    "encode_image example_upload_env prompt None 8 = Inr [8]"
    "encode_image example_upload_env prompt None 300 = Inl (Raised ''TypeError'')" for prompt
    by (cases prompt; simp add: encode_image_def png_metadata_def example_upload_env_def)+
  have enc_offline: "encode_image example_offline_upload_env None None 7 = Inr [7]"
    by (simp add: encode_image_def png_metadata_def example_offline_upload_env_def
        example_upload_env_def)
  have uploads: "upload_to_av example_upload_env files additional_data = Inr ()"
    for files additional_data
    by (simp add: example_upload_env_def)
  have unreachable: "upload_to_av example_offline_upload_env files additional_data =
      Inl (Raised ''ConnectionError'')" for files additional_data
    by (simp add: example_offline_upload_env_def)
  from upload_images_entries_and_fields [where env = example_upload_env and images = "[7, 8]"
      and folder_id = None and prompt = "Some ''p''" and extra_pnginfo = None]
  obtain files additional_data where
    two: "upload_images example_upload_env [7, 8] None (Some ''p'') None =
      ([(files, additional_data)], Inr ''Uploaded to ArtVenture!'')"
    and len: "length files = 2"
    and entries: "\<forall>k < 2. \<exists>buffer.
        encode_image example_upload_env (Some ''p'') None ([7, 8] ! k) = Inr buffer
      \<and> files ! k = (''files'', (''image-'' @ str_nat k @ ''.png'', buffer, ''image/png''))"
    and fields: "dom additional_data = {''success''}" "additional_data ''success'' = Some ''true''"
    using enc(1,2) [of "Some ''p''"] by (auto simp add: uploads)
  have "files ! 0 = (''files'', (''image-0.png'', [7], ''image/png''))"
    using entries [rule_format, of 0] enc(1) [of "Some ''p''"] digits(1) by auto
  moreover have "files ! 1 = (''files'', (''image-1.png'', [8], ''image/png''))"
    using entries [rule_format, of 1] enc(2) [of "Some ''p''"] digits(2) by auto
  ultimately have files: "files = [(''files'', (''image-0.png'', [7], ''image/png'')),
           (''files'', (''image-1.png'', [8], ''image/png''))]"
    using len by (cases files; cases "tl files"; cases "tl (tl files)") auto
  from fields have data: "additional_data = [''success'' \<mapsto> ''true'']"
    by (intro ext) (auto simp add: domIff)
  have one: "upload_images example_upload_env [7] (Some ''f1'') None None =
     ([([(''files'', (''image-0.png'', [7], ''image/png''))],
        [''success'' \<mapsto> ''true'', ''folderId'' \<mapsto> ''f1''])],
      Inr ''Uploaded to ArtVenture!'')"
    by (simp add: upload_images_def upload_batch_def enc digits uploads)
  have offline: "upload_images example_offline_upload_env [7] None None None =
     ([([(''files'', (''image-0.png'', [7], ''image/png''))], [''success'' \<mapsto> ''true''])],
      Inl (Raised ''ConnectionError''))"
    by (simp add: upload_images_def upload_batch_def enc_offline digits unreachable)
  have bad: "upload_images example_upload_env [7, 300] None None None =
      ([], Inl (Raised ''TypeError''))"
    by (simp add: upload_images_def upload_batch_def enc)
  from one two files data offline bad show ?thesis
    by simp
qed

text \<open>
  Claim C7. When \<^verbatim>\<open>load_image_from_url\<close> returns, its mask is decided by the bands of the
  opened image after EXIF transposition. Without a band \<^verbatim>\<open>A\<close> the mask is the 64 by 64 array
  of zeros, whatever the size of the image. With one, the mask has the shape of the alpha band
  and each sample is 1 minus the alpha byte divided by 255, both operations in single
  precision; an alpha band that is 255 throughout (normalized alpha 1.0) gives the all-zero
  mask and one that is 0 throughout gives the all-one mask.
\<close>

theorem ingest_mask:
  assumes "load_image_from_url env self url keep_alpha_channel = (calls, Inr out)"
  shows "\<exists>opened i. snd (fetch_image env url) = Inr opened \<and> exif_transpose env opened = Inr i
     \<and> (''A'' \<notin> set (getbands env i) \<longrightarrow> result_mask out = replicate 64 (replicate 64 0))
     \<and> (''A'' \<in> set (getbands env i) \<longrightarrow>
          result_mask out =
            map (map (\<lambda>a. f32_sub 1 (f32_div (of_nat (unat a)) 255))) (getchannel env i ''A'')
        \<and> ((\<forall>row \<in> set (getchannel env i ''A''). \<forall>a \<in> set row. a = 255) \<longrightarrow>
              result_mask out = map (map (\<lambda>a. 0)) (getchannel env i ''A''))
        \<and> ((\<forall>row \<in> set (getchannel env i ''A''). \<forall>a \<in> set row. a = 0) \<longrightarrow>
              result_mask out = map (map (\<lambda>a. 1)) (getchannel env i ''A'')))"
proof -
  from load_image_from_url_returns [OF assms] obtain opened i where
    fetched: "snd (fetch_image env url) = Inr opened" "exif_transpose env opened = Inr i"
    and mask: "result_mask out = alpha_mask env i"
    by blast
  have none: "''A'' \<notin> set (getbands env i) \<longrightarrow> result_mask out = replicate 64 (replicate 64 0)"
    by (simp add: mask alpha_mask_def)
  have some: "result_mask out =
      map (map (\<lambda>a. f32_sub 1 (f32_div (of_nat (unat a)) 255))) (getchannel env i ''A'')"
    if "''A'' \<in> set (getbands env i)"
    using that by (simp add: mask alpha_mask_def)
  have opaque: "map (map (\<lambda>a. f32_sub 1 (f32_div (of_nat (unat a)) 255))) rows =
      map (map (\<lambda>a. 0)) rows" if all: "\<forall>row \<in> set rows. \<forall>a \<in> set row. a = 255"
    for rows :: "8 word list list"
  proof (intro map_cong refl)
    fix row a
    assume "row \<in> set rows" "a \<in> set row"
    with all have "a = 255" by blast
    then show "f32_sub 1 (f32_div (of_nat (unat a)) 255) = 0"
      using mask_of_opaque by simp
  qed
  have transparent: "map (map (\<lambda>a. f32_sub 1 (f32_div (of_nat (unat a)) 255))) rows =
      map (map (\<lambda>a. 1)) rows" if all: "\<forall>row \<in> set rows. \<forall>a \<in> set row. a = 0"
    for rows :: "8 word list list"
  proof (intro map_cong refl)
    fix row a
    assume "row \<in> set rows" "a \<in> set row"
    with all have "a = 0" by blast
    then show "f32_sub 1 (f32_div (of_nat (unat a)) 255) = 1"
      using mask_of_transparent by simp
  qed
  have "snd (fetch_image env url) = Inr opened \<and> exif_transpose env opened = Inr i
     \<and> (''A'' \<notin> set (getbands env i) \<longrightarrow> result_mask out = replicate 64 (replicate 64 0))
     \<and> (''A'' \<in> set (getbands env i) \<longrightarrow>
          result_mask out =
            map (map (\<lambda>a. f32_sub 1 (f32_div (of_nat (unat a)) 255))) (getchannel env i ''A'')
        \<and> ((\<forall>row \<in> set (getchannel env i ''A''). \<forall>a \<in> set row. a = 255) \<longrightarrow>
              result_mask out = map (map (\<lambda>a. 0)) (getchannel env i ''A''))
        \<and> ((\<forall>row \<in> set (getchannel env i ''A''). \<forall>a \<in> set row. a = 0) \<longrightarrow>
              result_mask out = map (map (\<lambda>a. 1)) (getchannel env i ''A'')))"
    using fetched none some opaque [of "getchannel env i ''A''"]
      transparent [of "getchannel env i ''A''"]
    by (simp del: map_map)
  then show ?thesis
    by blast
qed

theorem ingest_mask_witness:
  "(\<exists>out. load_image_from_url example_ingest_env example_loader ''http://host/rgba.png'' True =
        ([HttpGet ''http://host/rgba.png'' 5], Inr out)
      \<and> result_mask out = [[0, 1], [8355711 / 16777216, 0]])
   \<and> (\<exists>out. load_image_from_url example_ingest_env example_loader ''data:image/png;base64,AA=='' False =
        ([], Inr out)
      \<and> result_mask out = replicate 64 (replicate 64 0)
      \<and> ui_images out = [\<lparr> preview_filename = ''TempImageFromUrl_00003.png'',
            preview_subfolder = [], preview_type = ''temp'' \<rparr>])"
proof -
  have bands: "getbands example_ingest_env = fst" "getchannel example_ingest_env = (\<lambda>i band. snd i)"
    "exif_transpose example_ingest_env = Inr"
    by (simp_all add: example_ingest_env_def)
  from example_process_rgba obtain out where rgba:
    "load_image_from_url example_ingest_env example_loader ''http://host/rgba.png'' True =
        ([HttpGet ''http://host/rgba.png'' 5], Inr out)"
    by (auto simp add: load_image_from_url_def example_fetch_rgba)
  from ingest_mask [OF rgba] obtain opened i where
    "snd (fetch_image example_ingest_env ''http://host/rgba.png'') = Inr opened"
    "exif_transpose example_ingest_env opened = Inr i"
    "''A'' \<in> set (getbands example_ingest_env i) \<longrightarrow>
       result_mask out = map (map (\<lambda>a. f32_sub 1 (f32_div (of_nat (unat a)) 255)))
         (getchannel example_ingest_env i ''A'')"
    by blast
  then have mask: "result_mask out = [[0, 1], [8355711 / 16777216, 0]]"
    using mask_of_opaque mask_of_transparent mask_of_half
    by (auto simp add: example_fetch_rgba bands)
  from example_process_rgb obtain out' where rgb:
    "load_image_from_url example_ingest_env example_loader ''data:image/png;base64,AA=='' False =
        ([], Inr out')"
    and ui: "ui_images out' = [\<lparr> preview_filename = ''TempImageFromUrl_00003.png'',
            preview_subfolder = [], preview_type = ''temp'' \<rparr>]"
    by (auto simp add: load_image_from_url_def example_fetch_data_uri)
  from ingest_mask [OF rgb] obtain opened' i' where
    "snd (fetch_image example_ingest_env ''data:image/png;base64,AA=='') = Inr opened'"
    "exif_transpose example_ingest_env opened' = Inr i'"
    "''A'' \<notin> set (getbands example_ingest_env i') \<longrightarrow>
       result_mask out' = replicate 64 (replicate 64 0)"
    by blast
  then have mask': "result_mask out' = replicate 64 (replicate 64 0)"
    by (auto simp add: example_fetch_data_uri bands)
  from rgba mask rgb mask' ui show ?thesis
    by blast
qed

text \<open>
  Claim C8, as amended. For a URL that does not start with \<^verbatim>\<open>data:image/\<close> the node makes
  exactly one call \<^verbatim>\<open>requests.get(url, timeout=5)\<close>. An exception of that call ends the node;
  a response whose status is not 200 ends it with \<^verbatim>\<open>Exception(response.text)\<close>; a response with
  status 200 is handed to the decoder, and the node's outcome is then the outcome of decoding
  and processing the received bytes. A data URI makes no network call.
\<close>

theorem fetch_fails_unless_status_200:
  "(startswith url ''data:image/'' \<longrightarrow>
      fst (load_image_from_url env self url keep_alpha_channel) = [])
   \<and> (\<not> startswith url ''data:image/'' \<longrightarrow>
        fst (load_image_from_url env self url keep_alpha_channel) = [HttpGet url 5]
      \<and> (\<forall>e. requests_get env url 5 = Inl e \<longrightarrow>
            snd (load_image_from_url env self url keep_alpha_channel) = Inl e)
      \<and> (\<forall>response. requests_get env url 5 = Inr response \<longrightarrow>
            (status_code response \<noteq> 200 \<longrightarrow>
               snd (load_image_from_url env self url keep_alpha_channel) =
                 Inl (Exception (response_text response)))
          \<and> (status_code response = 200 \<longrightarrow>
               snd (load_image_from_url env self url keep_alpha_channel) =
                 (case image_open env (response_content response) of
                    Inl e \<Rightarrow> Inl e
                  | Inr opened \<Rightarrow> process_image env self opened keep_alpha_channel))))"
  unfolding load_image_from_url_def fetch_image_def
  by (auto split: sum.splits)

theorem fetch_fails_unless_status_200_witness:
  "load_image_from_url example_ingest_env example_loader ''http://host/missing.png'' False =
     ([HttpGet ''http://host/missing.png'' 5], Inl (Exception ''Not Found''))
   \<and> load_image_from_url example_ingest_env example_loader ''http://nowhere/x.png'' False =
     ([HttpGet ''http://nowhere/x.png'' 5], Inl (Raised ''ConnectionError''))
   \<and> fst (load_image_from_url example_ingest_env example_loader ''http://host/rgba.png'' False) =
       [HttpGet ''http://host/rgba.png'' 5]
   \<and> snd (load_image_from_url example_ingest_env example_loader ''http://host/rgba.png'' False) =
       process_image example_ingest_env example_loader
         ([''R'', ''G'', ''B'', ''A''], [[255, 0], [128, 255]]) False
   \<and> fst (load_image_from_url example_ingest_env example_loader ''data:image/png;base64,AA=='' False) = []"
proof -
  have urls: "\<not> startswith ''http://host/missing.png'' ''data:image/''"
    "\<not> startswith ''http://nowhere/x.png'' ''data:image/''"
    "\<not> startswith ''http://host/rgba.png'' ''data:image/''"
    "startswith ''data:image/png;base64,AA=='' ''data:image/''"
    by (simp_all add: startswith_def)
  have gets: "requests_get example_ingest_env ''http://host/missing.png'' 5 =
      Inr \<lparr> status_code = 404, response_text = ''Not Found'', response_content = [] \<rparr>"
    "requests_get example_ingest_env ''http://nowhere/x.png'' 5 = Inl (Raised ''ConnectionError'')"
    "requests_get example_ingest_env ''http://host/rgba.png'' 5 =
      Inr \<lparr> status_code = 200, response_text = ''(png)'', response_content = [1] \<rparr>"
    by (simp_all add: example_ingest_env_def)
  have opened: "image_open example_ingest_env [1] = Inr ([''R'', ''G'', ''B'', ''A''], [[255, 0], [128, 255]])"
    by (simp add: example_ingest_env_def)
  note t = fetch_fails_unless_status_200 [where env = example_ingest_env and self = example_loader
      and keep_alpha_channel = False]
  have "load_image_from_url example_ingest_env example_loader ''http://host/missing.png'' False =
     ([HttpGet ''http://host/missing.png'' 5], Inl (Exception ''Not Found''))"
    using t [where url = "''http://host/missing.png''"] urls(1) gets(1)
    by (simp add: prod_eq_iff)
  moreover have "load_image_from_url example_ingest_env example_loader ''http://nowhere/x.png'' False =
     ([HttpGet ''http://nowhere/x.png'' 5], Inl (Raised ''ConnectionError''))"
    using t [where url = "''http://nowhere/x.png''"] urls(2) gets(2)
    by (simp add: prod_eq_iff)
  moreover have "fst (load_image_from_url example_ingest_env example_loader ''http://host/rgba.png'' False) =
       [HttpGet ''http://host/rgba.png'' 5]
   \<and> snd (load_image_from_url example_ingest_env example_loader ''http://host/rgba.png'' False) =
       process_image example_ingest_env example_loader
         ([''R'', ''G'', ''B'', ''A''], [[255, 0], [128, 255]]) False"
    using t [where url = "''http://host/rgba.png''"] urls(3) gets(3) opened
    by simp
  moreover have "fst (load_image_from_url example_ingest_env example_loader
      ''data:image/png;base64,AA=='' False) = []"
    using t [where url = "''data:image/png;base64,AA==''"] urls(4)
    by simp
  ultimately show ?thesis
    by simp
qed

text \<open>
  Claim C8 as stated fails at a success status other than 200: a response with status 203
  (a success status, between 200 and 299) ends the node with the exception of the status
  check.
\<close>

theorem fetch_success_status_counterexample:
  "\<not> startswith ''http://host/proxied.png'' ''data:image/''
   \<and> requests_get example_ingest_env ''http://host/proxied.png'' 5 =
       Inr \<lparr> status_code = 203, response_text = ''(png)'', response_content = [1] \<rparr>
   \<and> (200 :: int) \<le> 203 \<and> (203 :: int) < 300
   \<and> load_image_from_url example_ingest_env example_loader ''http://host/proxied.png'' False =
       ([HttpGet ''http://host/proxied.png'' 5], Inl (Exception ''(png)''))"
  by (simp add: load_image_from_url_def fetch_image_def example_ingest_env_def startswith_def)

text \<open>
  Claim C9. The two read-back operations change nothing in the store, and the first element
  of their result is the pipe they were given (their own default dict when none is given).
\<close>

theorem read_back_leaves_pipe_unchanged:
  "fst (parameter_pipe_to_checkpoint_models h pipe) = h
   \<and> cm_pipe (snd (parameter_pipe_to_checkpoint_models h pipe)) =
       (case pipe of None \<Rightarrow> DefaultPipe ParametersPipeToCheckpointModels | Some r \<Rightarrow> r)
   \<and> fst (parameter_pipe_to_prompt h pipe) = h
   \<and> pr_pipe (snd (parameter_pipe_to_prompt h pipe)) =
       (case pipe of None \<Rightarrow> DefaultPipe ParametersPipeToPrompts | Some r \<Rightarrow> r)"
  by (simp add: parameter_pipe_to_checkpoint_models_def parameter_pipe_to_prompt_def Let_def)

theorem read_back_leaves_pipe_unchanged_witness:
  "fst (parameter_pipe_to_checkpoint_models example_heap (Some (Obj 0))) (Obj 0) ''seed'' =
     Some (PyStr ''7'')
   \<and> dom (fst (parameter_pipe_to_prompt example_heap (Some (Obj 0))) (Obj 0)) =
       {''positive'', ''seed''}
   \<and> pr_pipe (snd (parameter_pipe_to_prompt example_heap (Some (Obj 0)))) = Obj 0
   \<and> pr_positive (snd (parameter_pipe_to_prompt example_heap (Some (Obj 0)))) = PyStr ''a cat''"
proof -
  note same = read_back_leaves_pipe_unchanged [of example_heap "Some (Obj 0)"]
  have "pr_positive (snd (parameter_pipe_to_prompt example_heap (Some (Obj 0)))) = PyStr ''a cat''"
    by (simp add: parameter_pipe_to_prompt_def Let_def dict_get_def example_heap_def)
  moreover have "example_heap (Obj 0) ''seed'' = Some (PyStr ''7'')"
    by (simp add: example_heap_def)
  moreover have "dom (example_heap (Obj 0)) = {''positive'', ''seed''}"
    by (auto simp add: example_heap_def)
  ultimately show ?thesis
    using same by simp
qed

text \<open>
  Claim C10. Two calls of a to-pipe operation without a pipe argument return the same dict,
  the default object of that operation: after the second call, the pipe returned by the first
  holds the values of the second.
\<close>

theorem default_pipe_is_shared_between_calls:
  assumes "checkpoint_models_to_parameter_pipe h ckpt_name None secondary_ckpt_name vae_name
             upscaler_name secondary_upscaler_name lora_1_name lora_2_name lora_3_name = (h1, p1)"
      and "checkpoint_models_to_parameter_pipe h1 ckpt_name' None secondary_ckpt_name' vae_name'
             upscaler_name' secondary_upscaler_name' lora_1_name' lora_2_name' lora_3_name' = (h2, p2)"
      and "prompt_to_parameter_pipe g positive negative None image' mask' = (g1, q1)"
      and "prompt_to_parameter_pipe g1 positive' negative' None image'' mask'' = (g2, q2)"
  shows "p2 = p1
       \<and> h2 p1 ''ckpt_name'' = Some (name_unless_sentinel ckpt_name')
       \<and> h2 p1 ''secondary_ckpt_name'' = Some (name_unless_sentinel (or_sentinel secondary_ckpt_name'))
       \<and> h2 p1 ''vae_name'' = Some (name_unless_sentinel (or_sentinel vae_name'))
       \<and> h2 p1 ''upscaler_name'' = Some (name_unless_sentinel (or_sentinel upscaler_name'))
       \<and> h2 p1 ''secondary_upscaler_name'' =
           Some (name_unless_sentinel (or_sentinel secondary_upscaler_name'))
       \<and> h2 p1 ''lora_1_name'' = Some (name_unless_sentinel (or_sentinel lora_1_name'))
       \<and> h2 p1 ''lora_2_name'' = Some (name_unless_sentinel (or_sentinel lora_2_name'))
       \<and> h2 p1 ''lora_3_name'' = Some (name_unless_sentinel (or_sentinel lora_3_name'))
       \<and> q2 = q1
       \<and> g2 q1 ''positive'' = Some (PyStr positive')
       \<and> g2 q1 ''negative'' = Some (PyStr negative')
       \<and> g2 q1 ''image'' = Some (case image'' of None \<Rightarrow> PyNone | Some t \<Rightarrow> PyTensor t)
       \<and> g2 q1 ''mask'' = Some (case mask'' of None \<Rightarrow> PyNone | Some t \<Rightarrow> PyTensor t)"
proof -
  have p: "p1 = DefaultPipe CheckpointModelsToParametersPipe" "p2 = p1"
    using checkpoint_models_to_parameter_pipe_result(1) [OF assms(1)]
      checkpoint_models_to_parameter_pipe_result(1) [OF assms(2)] by simp_all
  have q: "q1 = DefaultPipe PromptsToParametersPipe" "q2 = q1"
    using prompt_to_parameter_pipe_result(1) [OF assms(3)]
      prompt_to_parameter_pipe_result(1) [OF assms(4)] by simp_all
  have h2: "h2 p1 = (h1 p1)(
        ''ckpt_name'' \<mapsto> name_unless_sentinel ckpt_name',
        ''secondary_ckpt_name'' \<mapsto> name_unless_sentinel (or_sentinel secondary_ckpt_name'),
        ''vae_name'' \<mapsto> name_unless_sentinel (or_sentinel vae_name'),
        ''upscaler_name'' \<mapsto> name_unless_sentinel (or_sentinel upscaler_name'),
        ''secondary_upscaler_name'' \<mapsto> name_unless_sentinel (or_sentinel secondary_upscaler_name'),
        ''lora_1_name'' \<mapsto> name_unless_sentinel (or_sentinel lora_1_name'),
        ''lora_2_name'' \<mapsto> name_unless_sentinel (or_sentinel lora_2_name'),
        ''lora_3_name'' \<mapsto> name_unless_sentinel (or_sentinel lora_3_name'))"
    unfolding checkpoint_models_to_parameter_pipe_result(2) [OF assms(2)] p(2)
    by (simp split del: if_split)
  have g2: "g2 q1 = (g1 q1)(
        ''positive'' \<mapsto> PyStr positive',
        ''negative'' \<mapsto> PyStr negative',
        ''image'' \<mapsto> (case image'' of None \<Rightarrow> PyNone | Some t \<Rightarrow> PyTensor t),
        ''mask'' \<mapsto> (case mask'' of None \<Rightarrow> PyNone | Some t \<Rightarrow> PyTensor t))"
    unfolding prompt_to_parameter_pipe_result(2) [OF assms(4)] q(2)
    by simp
  show ?thesis
    unfolding h2 g2
    by (simp add: p(2) q(2) split del: if_split)
qed

theorem default_pipe_is_shared_between_calls_witness:
  "\<exists>h1 p1 h2 p2 g1 q1 g2 q2.
      checkpoint_models_to_parameter_pipe (initial_heap :: nat heap) ''a.ckpt'' None
        None (Some ''v.pt'') None None None None None = (h1, p1)
    \<and> checkpoint_models_to_parameter_pipe h1 ''b.ckpt'' None
        None None None None None None None = (h2, p2)
    \<and> prompt_to_parameter_pipe (initial_heap :: nat heap) ''first'' ''one'' None (Some 1) None = (g1, q1)
    \<and> prompt_to_parameter_pipe g1 ''second'' ''two'' None None None = (g2, q2)
    \<and> h1 p1 ''ckpt_name'' = Some (PyStr ''a.ckpt'')
    \<and> h1 p1 ''vae_name'' = Some (PyStr ''v.pt'')
    \<and> h2 p1 ''ckpt_name'' = Some (PyStr ''b.ckpt'')
    \<and> h2 p1 ''vae_name'' = Some PyNone
    \<and> g1 q1 ''positive'' = Some (PyStr ''first'')
    \<and> g1 q1 ''image'' = Some (PyTensor 1)
    \<and> g2 q1 ''positive'' = Some (PyStr ''second'')
    \<and> g2 q1 ''image'' = Some PyNone"
proof -
  obtain h1 p1 where c1:
    "checkpoint_models_to_parameter_pipe (initial_heap :: nat heap) ''a.ckpt'' None
        None (Some ''v.pt'') None None None None None = (h1, p1)"
    by (rule prod.exhaust)
  obtain h2 p2 where c2:
    "checkpoint_models_to_parameter_pipe h1 ''b.ckpt'' None
        None None None None None None None = (h2, p2)"
    by (rule prod.exhaust)
  obtain g1 q1 where c3:
    "prompt_to_parameter_pipe (initial_heap :: nat heap) ''first'' ''one'' None (Some 1) None = (g1, q1)"
    by (rule prod.exhaust)
  obtain g2 q2 where c4:
    "prompt_to_parameter_pipe g1 ''second'' ''two'' None None None = (g2, q2)"
    by (rule prod.exhaust)
  have first: "h1 p1 ''ckpt_name'' = Some (PyStr ''a.ckpt'')" "h1 p1 ''vae_name'' = Some (PyStr ''v.pt'')"
    unfolding checkpoint_models_to_parameter_pipe_result(2) [OF c1] by simp_all
  have first': "g1 q1 ''positive'' = Some (PyStr ''first'')" "g1 q1 ''image'' = Some (PyTensor 1)"
    unfolding prompt_to_parameter_pipe_result(2) [OF c3] by simp_all
  have "h2 p1 ''ckpt_name'' = Some (PyStr ''b.ckpt'') \<and> h2 p1 ''vae_name'' = Some PyNone
      \<and> g2 q1 ''positive'' = Some (PyStr ''second'') \<and> g2 q1 ''image'' = Some PyNone"
    using default_pipe_is_shared_between_calls [OF c1 c2 c3 c4] by simp
  with c1 c2 c3 c4 first first' show ?thesis
    by blast
qed

end
